theory Spec2Isabelle
  imports Main "HOL-Library.Word"
begin

section \<open>Wire types (xxcode/xxcode.go)\<close>

type_synonym uint64 = "64 word"

text \<open>The per-message envelope \<^verbatim>\<open>xxcode.Header\<close>.\<close>

record Header =
  ServiceMethod :: string
  SeqId :: uint64
  Error :: string

section \<open>Client (client/client.go)\<close>

text \<open>
  A \<^verbatim>\<open>*Call\<close> is a pointer: the pending map and the caller share the object, so calls
  live in a store addressed by natural numbers. \<^verbatim>\<open>Args\<close> and \<^verbatim>\<open>Reply\<close> are opaque
  to the client and are kept as encoded strings. The Go \<^verbatim>\<open>error\<close> in \<^verbatim>\<open>Call.Error\<close>
  is \<open>None\<close> for nil and \<open>Some msg\<close> otherwise. \<^verbatim>\<open>Done\<close> names a channel of the
  channel store.
\<close>

record Call =
  Seq :: uint64
  CallServiceMethod :: string
  Args :: string
  Reply :: string
  CallError :: "string option"
  Done :: nat

text \<open>
  A buffered channel of \<^verbatim>\<open>*Call\<close>: its capacity and the values sent on it so far, oldest
  first.
\<close>

record chan =
  cap :: nat
  sent :: "nat list"

text \<open>
  The fields of \<^verbatim>\<open>Client\<close> guarded by \<^verbatim>\<open>mu\<close> (\<open>seq\<close>, \<open>pending\<close>, \<open>closing\<close>,
  \<open>shutdown\<close>), the header scratch guarded by \<^verbatim>\<open>sending\<close>, and the memory the client
  works on: the store of \<^verbatim>\<open>Call\<close> objects with its allocation counter, and the channels.
\<close>

record Client =
  seq :: uint64
  pending :: "uint64 \<rightharpoonup> nat"
  closing :: bool
  shutdown :: bool
  header :: Header
  calls :: "nat \<Rightarrow> Call"
  ncalls :: nat
  chans :: "nat \<Rightarrow> chan"
  nchans :: nat

definition zeroCall :: Call where
  "zeroCall = \<lparr>Seq = 0, CallServiceMethod = [], Args = [], Reply = [],
     CallError = None, Done = 0\<rparr>"

definition zeroHeader :: Header where
  "zeroHeader = \<lparr>ServiceMethod = [], SeqId = 0, Error = []\<rparr>"

text \<open>\<^verbatim>\<open>call.done()\<close>: \<^verbatim>\<open>call.Done <- call\<close>.\<close>

definition call_done :: "nat \<Rightarrow> Client \<Rightarrow> Client" where
  "call_done call c =
     (let ch = Done (calls c call)
      in c\<lparr>chans := (chans c)(ch := (chans c ch)\<lparr>sent := sent (chans c ch) @ [call]\<rparr>)\<rparr>)"

text \<open>\<^verbatim>\<open>call.Error = err\<close> on the stored object.\<close>

definition setError :: "nat \<Rightarrow> string option \<Rightarrow> Client \<Rightarrow> Client" where
  "setError call e c = c\<lparr>calls := (calls c)(call := (calls c call)\<lparr>CallError := e\<rparr>)\<rparr>"

text \<open>
  \<^verbatim>\<open>Close\<close>: the second close fails; the first sets \<open>closing\<close> and returns what
  closing the codec returns, the argument \<open>ccerr\<close>.
\<close>

definition Close :: "string option \<Rightarrow> Client \<Rightarrow> string option \<times> Client" where
  "Close ccerr c =
     (if closing c then (Some ''connection is closed'', c)
      else (ccerr, c\<lparr>closing := True\<rparr>))"

definition IsAvailable :: "Client \<Rightarrow> bool" where
  "IsAvailable c = (\<not> shutdown c \<and> \<not> closing c)"

text \<open>
  \<^verbatim>\<open>registerCall\<close>: returns the sequence id and the error, and the client afterwards.
  \<^verbatim>\<open>c.seq++\<close> is an addition on \<^verbatim>\<open>uint64\<close> and wraps.
\<close>

definition registerCall :: "nat \<Rightarrow> Client \<Rightarrow> (uint64 \<times> string option) \<times> Client" where
  "registerCall call c =
     (if closing c \<or> shutdown c then ((0, Some ''connection is closed''), c)
      else ((seq c, None),
            c\<lparr>pending := (pending c)(seq c \<mapsto> call),
              calls := (calls c)(call := (calls c call)\<lparr>Seq := seq c\<rparr>),
              seq := seq c + 1\<rparr>))"

text \<open>\<^verbatim>\<open>removeCall\<close>: look the id up, delete it, return what was found (nil when absent).\<close>

definition removeCall :: "uint64 \<Rightarrow> Client \<Rightarrow> nat option \<times> Client" where
  "removeCall s c = (pending c s, c\<lparr>pending := (pending c)(s := None)\<rparr>)"

text \<open>
  \<^verbatim>\<open>terminateCalls\<close>: sets \<open>shutdown\<close>, then ranges over the pending map, setting the error
  of each call and signalling it. Go leaves the iteration order of a map unspecified, so
  the order in which the keys are visited is an argument; the entries stay in the map.
\<close>

fun terminateLoop :: "string \<Rightarrow> uint64 list \<Rightarrow> Client \<Rightarrow> Client" where
  "terminateLoop err [] c = c"
| "terminateLoop err (k # ks) c =
     (case pending c k of
        None \<Rightarrow> terminateLoop err ks c
      | Some call \<Rightarrow> terminateLoop err ks (call_done call (setError call (Some err) c)))"

definition terminateCalls :: "string \<Rightarrow> uint64 list \<Rightarrow> Client \<Rightarrow> Client" where
  "terminateCalls err order c = terminateLoop err order (c\<lparr>shutdown := True\<rparr>)"

text \<open>
  \<^verbatim>\<open>newClientCode\<close>: \<open>seq\<close> starts at 1 and the pending map is empty. No call and no
  channel has been allocated yet.
\<close>

definition newClientCode :: Client where
  "newClientCode =
     \<lparr>seq = 1, pending = Map.empty, closing = False, shutdown = False,
      header = zeroHeader, calls = (\<lambda>_. zeroCall), ncalls = 0,
      chans = (\<lambda>_. \<lparr>cap = 0, sent = []\<rparr>), nchans = 0\<rparr>"

text \<open>
  \<^verbatim>\<open>send\<close> runs under the send mutex, in two parts with \<^verbatim>\<open>cc.Write\<close> between them.
  \<open>send_register\<close> is the part before the write: it registers the call and fills the
  header scratch, and returns the sequence id; when the registration fails it completes
  the call with that error and returns \<open>None\<close>, and \<^verbatim>\<open>send\<close> returns. \<open>send_write\<close> is
  the part after the write, whose outcome is the argument \<open>werr\<close> (\<open>None\<close> for success):
  a failed write removes the call again and completes it, unless it is no longer pending.
\<close>

definition send_register :: "nat \<Rightarrow> Client \<Rightarrow> uint64 option \<times> Client" where
  "send_register call c =
     (case registerCall call c of
        ((seqId, Some e), c1) \<Rightarrow> (None, call_done call (setError call (Some e) c1))
      | ((seqId, None), c1) \<Rightarrow>
          (Some seqId,
           c1\<lparr>header := \<lparr>ServiceMethod = CallServiceMethod (calls c1 call),
                          SeqId = seqId, Error = []\<rparr>\<rparr>))"

definition send_write :: "string option \<Rightarrow> uint64 \<Rightarrow> Client \<Rightarrow> Client" where
  "send_write werr seqId c =
     (case werr of
        None \<Rightarrow> c
      | Some e \<Rightarrow>
          (case removeCall seqId c of
             (None, c1) \<Rightarrow> c1
           | (Some call, c1) \<Rightarrow> call_done call (setError call (Some e) c1)))"

definition send :: "string option \<Rightarrow> nat \<Rightarrow> Client \<Rightarrow> Client" where
  "send werr call c =
     (case send_register call c of
        (None, c1) \<Rightarrow> c1
      | (Some seqId, c1) \<Rightarrow> send_write werr seqId c1)"

text \<open>\<^verbatim>\<open>make(chan *Call, n)\<close>: a fresh, empty channel of capacity \<open>n\<close>.\<close>

definition makeChan :: "nat \<Rightarrow> Client \<Rightarrow> nat \<times> Client" where
  "makeChan n c =
     (nchans c, c\<lparr>chans := (chans c)(nchans c := \<lparr>cap = n, sent = []\<rparr>),
                  nchans := nchans c + 1\<rparr>)"

text \<open>
  \<^verbatim>\<open>Go\<close>: a nil \<^verbatim>\<open>done\<close> gets a fresh channel of capacity 10, an unbuffered one panics
  (\<open>Inl\<close>); then a new \<^verbatim>\<open>Call\<close> object is allocated (its \<^verbatim>\<open>Seq\<close> and \<^verbatim>\<open>Error\<close> are
  the zero values). This much is \<open>Go_alloc\<close>. Then the call is sent. The result is the
  call and the client afterwards.
\<close>

definition Go_alloc ::
  "string \<Rightarrow> string \<Rightarrow> string \<Rightarrow> nat option \<Rightarrow> Client \<Rightarrow> string + (nat \<times> Client)" where
  "Go_alloc serviceMethod args reply dn c =
     (case (case dn of
              None \<Rightarrow> Inr (makeChan 10 c)
            | Some ch \<Rightarrow>
                if cap (chans c ch) = 0
                then Inl ''rpc client: done channel is unbuffered''
                else Inr (ch, c)) of
        Inl e \<Rightarrow> Inl e
      | Inr (ch, c1) \<Rightarrow>
          Inr (ncalls c1,
               c1\<lparr>calls := (calls c1)(ncalls c1 :=
                       \<lparr>Seq = 0, CallServiceMethod = serviceMethod, Args = args,
                        Reply = reply, CallError = None, Done = ch\<rparr>),
                   ncalls := ncalls c1 + 1\<rparr>))"

definition Go ::
  "string option \<Rightarrow> string \<Rightarrow> string \<Rightarrow> string \<Rightarrow> nat option \<Rightarrow> Client
     \<Rightarrow> string + (nat \<times> Client)" where
  "Go werr serviceMethod args reply dn c =
     (case Go_alloc serviceMethod args reply dn c of
        Inl e \<Rightarrow> Inl e
      | Inr (call, c1) \<Rightarrow> Inr (call, send werr call c1))"

text \<open>
  \<^verbatim>\<open>Call\<close> is \<^verbatim>\<open>Go\<close> on a fresh channel of capacity 1 followed by a \<^verbatim>\<open>select\<close>.
  The part before the \<^verbatim>\<open>select\<close> is \<open>Call_Go\<close>. The branch taken when the context is
  done is \<open>Call_cancelled\<close>, with \<open>cause\<close> the text of \<^verbatim>\<open>ctx.Err()\<close>; the branch
  taken when the call was signalled is \<open>Call_completed\<close>.
\<close>

definition Call_Go ::
  "string option \<Rightarrow> string \<Rightarrow> string \<Rightarrow> string \<Rightarrow> Client \<Rightarrow> string + (nat \<times> Client)" where
  "Call_Go werr serviceMethod args reply c =
     (case makeChan 1 c of (ch, c1) \<Rightarrow> Go werr serviceMethod args reply (Some ch) c1)"

definition Call_cancelled :: "string \<Rightarrow> nat \<Rightarrow> Client \<Rightarrow> string option \<times> Client" where
  "Call_cancelled cause call c =
     (Some (''rpc client: call failed: '' @ cause),
      snd (removeCall (Seq (calls c call)) c))"

definition Call_completed :: "nat \<Rightarrow> Client \<Rightarrow> string option" where
  "Call_completed call c = CallError (calls c call)"



subsection \<open>Runs of a client\<close>

text \<open>
  The fields \<open>seq\<close>, \<open>pending\<close>, \<open>closing\<close> and \<open>shutdown\<close> are read and written
  only under \<^verbatim>\<open>mu\<close>, by \<^verbatim>\<open>registerCall\<close>, \<^verbatim>\<open>removeCall\<close>, \<^verbatim>\<open>terminateCalls\<close>
  and \<^verbatim>\<open>Close\<close>. Whatever the goroutines of a client do, its history is therefore a
  sequence of these four operations, each atomic (what \<^verbatim>\<open>Close\<close> returns does not enter
  the state). \<open>run_ops\<close> runs such a sequence and
  collects the sequence ids that the successful registrations returned, in order.
\<close>

datatype mu_op = OpRegister nat | OpRemove uint64 | OpTerminate string "uint64 list" | OpClose

fun apply_op :: "mu_op \<Rightarrow> Client \<Rightarrow> Client \<times> uint64 list" where
  "apply_op (OpRegister call) c =
     (case registerCall call c of
        ((s, None), c') \<Rightarrow> (c', [s])
      | ((s, Some e), c') \<Rightarrow> (c', []))"
| "apply_op (OpRemove s) c = (snd (removeCall s c), [])"
| "apply_op (OpTerminate err order) c = (terminateCalls err order c, [])"
| "apply_op OpClose c = (snd (Close None c), [])"

fun run_ops :: "mu_op list \<Rightarrow> Client \<Rightarrow> Client \<times> uint64 list" where
  "run_ops [] c = (c, [])"
| "run_ops (x # xs) c =
     (case apply_op x c of (c1, ids1) \<Rightarrow>
        (case run_ops xs c1 of (c2, ids2) \<Rightarrow> (c2, ids1 @ ids2)))"

text \<open>
  The invariant of a client on which \<open>n\<close> registrations have succeeded: the next id is
  \<open>n + 1\<close> and every pending id lies between 1 and \<open>n\<close>.
\<close>

definition seq_inv :: "nat \<Rightarrow> Client \<Rightarrow> bool" where
  "seq_inv n c = (seq c = word_of_nat (Suc n) \<and> (\<forall>k \<in> dom (pending c). 1 \<le> unat k \<and> unat k \<le> n))"

text \<open>
  One more asynchronous call on a client, with a nil \<^verbatim>\<open>done\<close> and a write that
  succeeds; the client after \<open>2 ^ 64\<close> such calls and a \<^verbatim>\<open>Close\<close>; and that client after
  the part of one more \<^verbatim>\<open>Call\<close> that precedes its \<^verbatim>\<open>select\<close>.
\<close>

definition go_ok :: "Client \<Rightarrow> Client" where
  "go_ok c = (case Go None [] [] [] None c of Inl e \<Rightarrow> c | Inr (call, c') \<Rightarrow> c')"

definition wrapped_closed :: Client where
  "wrapped_closed = snd (Close None ((go_ok ^^ (2 ^ 64)) newClientCode))"

definition late_client :: Client where
  "late_client = snd (projr (Call_Go None [] [] [] wrapped_closed))"


section \<open>Service registry (service package)\<close>

text \<open>
  What the code asks of \<^verbatim>\<open>reflect\<close>: the kind of a type, its name, its package path and,
  for a pointer, map, slice, array or channel type, its element type.
\<close>

datatype Kind =
    KInvalid | KBool | KInt | KInt8 | KInt16 | KInt32 | KInt64
  | KUint | KUint8 | KUint16 | KUint32 | KUint64 | KUintptr
  | KFloat32 | KFloat64 | KComplex64 | KComplex128
  | KArray | KChan | KFunc | KInterface | KMap | KPtr | KSlice | KString | KStruct
  | KUnsafePointer

datatype rtype = RType (tName: string) (tPkgPath: string) (tKind: Kind) (tElem: "rtype option")

text \<open>
  A method of the receiver's method set, as \<^verbatim>\<open>Typ.Method(i)\<close> returns it: its name and its
  function type, whose first input is the receiver.
\<close>

record Method =
  MName :: string
  In :: "rtype list"
  Out :: "rtype list"

record MethodType =
  MMethod :: Method
  ArgType :: rtype
  ReplyType :: rtype
  NumCalls :: uint64

text \<open>
  The receiver handed to \<^verbatim>\<open>NewService\<close>: its dynamic type, the exported methods of that
  type in the order of \<^verbatim>\<open>Typ.Method\<close>, and whether it is a nil pointer.
\<close>

record receiver =
  rTyp :: rtype
  rMethods :: "Method list"
  rNil :: bool

record Service =
  Name :: string
  Typ :: rtype
  Rcvr :: receiver
  Methods :: "string \<rightharpoonup> MethodType"

text \<open>A process that stops: \<^verbatim>\<open>log.Fatalf\<close> or a panic, with the message.\<close>

datatype fault = Fatal string | Panic string

text \<open>\<^verbatim>\<open>reflect.TypeOf((*error)(nil)).Elem()\<close>: the predeclared interface type \<^verbatim>\<open>error\<close>.\<close>

definition errorType :: rtype where
  "errorType = RType ''error'' [] KInterface None"

text \<open>
  \<^verbatim>\<open>ast.IsExported\<close> is the argument \<open>exported\<close> of the functions below: whether a name
  starts with an upper-case letter of Unicode. \<open>ascii_exported\<close> is that test for names
  that start with an ASCII character.
\<close>

definition ascii_exported :: "string \<Rightarrow> bool" where
  "ascii_exported name =
     (case name of [] \<Rightarrow> False
      | ch # _ \<Rightarrow> (65::nat) \<le> of_char ch \<and> of_char ch \<le> (90::nat))"

definition isExportedOrBuiltinType :: "(string \<Rightarrow> bool) \<Rightarrow> rtype \<Rightarrow> bool" where
  "isExportedOrBuiltinType exported t = (exported (tName t) \<or> tPkgPath t = [])"

text \<open>
  The loop of \<^verbatim>\<open>RegisterMethods\<close> over the method set, with the map built so far. Each
  \<^verbatim>\<open>continue\<close> goes on with the map unchanged.
\<close>

fun registerLoop ::
  "(string \<Rightarrow> bool) \<Rightarrow> Method list \<Rightarrow> (string \<rightharpoonup> MethodType) \<Rightarrow> (string \<rightharpoonup> MethodType)" where
  "registerLoop exported [] m = m"
| "registerLoop exported (mth # ms) m =
     (if length (In mth) \<noteq> 3 \<or> length (Out mth) \<noteq> 1 then registerLoop exported ms m
      else if Out mth ! 0 \<noteq> errorType then registerLoop exported ms m
      else
        (let argType = In mth ! 1; replyType = In mth ! 2
         in if \<not> isExportedOrBuiltinType exported argType
               \<or> \<not> isExportedOrBuiltinType exported replyType
            then registerLoop exported ms m
            else registerLoop exported ms
                   (m(MName mth \<mapsto>
                      \<lparr>MMethod = mth, ArgType = argType, ReplyType = replyType,
                       NumCalls = 0\<rparr>))))"

definition RegisterMethods :: "(string \<Rightarrow> bool) \<Rightarrow> Service \<Rightarrow> Service" where
  "RegisterMethods exported s =
     s\<lparr>Methods := registerLoop exported (rMethods (Rcvr s)) Map.empty\<rparr>"

text \<open>
  \<^verbatim>\<open>NewService\<close>. The name is that of the type of \<^verbatim>\<open>reflect.Indirect(s.Rcvr)\<close>: of the
  pointed-to type for a pointer, of the type itself otherwise; \<^verbatim>\<open>Type()\<close> panics on the
  zero Value that \<^verbatim>\<open>Indirect\<close> returns for a nil pointer. A name that is not exported
  ends the process in \<^verbatim>\<open>log.Fatalf\<close>.
\<close>

definition NewService :: "(string \<Rightarrow> bool) \<Rightarrow> receiver \<Rightarrow> fault + Service" where
  "NewService exported rcvr =
     (if tKind (rTyp rcvr) = KPtr \<and> rNil rcvr
      then Inl (Panic ''reflect: call of reflect.Value.Type on zero Value'')
      else
        (let name = (case (tKind (rTyp rcvr), tElem (rTyp rcvr)) of
                       (KPtr, Some t) \<Rightarrow> tName t
                     | _ \<Rightarrow> tName (rTyp rcvr))
         in if \<not> exported name
            then Inl (Fatal (''rpc server: '' @ name @ '' is not a valid service name''))
            else Inr (RegisterMethods exported
                        \<lparr>Name = name, Typ = rTyp rcvr, Rcvr = rcvr, Methods = Map.empty\<rparr>)))"

text \<open>
  A \<^verbatim>\<open>reflect.Value\<close> as far as the server handles it: the zero Value, or a value of a
  type with its state (freshly zeroed, an empty map, an empty slice, or decoded from a
  body).
\<close>

datatype content = ZeroC | EmptyMapC | EmptySliceC | DataC string

datatype rvalue = ZeroValue | Value rtype content

text \<open>
  \<^verbatim>\<open>NewArgv\<close>: for a pointer type a pointer to a new zero value of the element type,
  otherwise a new zero value of the type itself.
\<close>

definition NewArgv :: "MethodType \<Rightarrow> rvalue" where
  "NewArgv m =
     (if tKind (ArgType m) = KPtr then Value (ArgType m) ZeroC
      else Value (ArgType m) ZeroC)"

text \<open>
  \<^verbatim>\<open>NewReplyv\<close>: \<^verbatim>\<open>m.ReplyType.Elem()\<close> panics for a type that has no element type (any
  kind but array, channel, map, pointer and slice). A map or slice behind the pointer is
  made empty instead of nil.
\<close>

definition NewReplyv :: "MethodType \<Rightarrow> string + rvalue" where
  "NewReplyv m =
     (case tElem (ReplyType m) of
        None \<Rightarrow> Inl ''reflect: Elem of invalid type''
      | Some e \<Rightarrow>
          (case tKind e of
             KMap \<Rightarrow> Inr (Value (RType [] [] KPtr (Some e)) EmptyMapC)
           | KSlice \<Rightarrow> Inr (Value (RType [] [] KPtr (Some e)) EmptySliceC)
           | _ \<Rightarrow> Inr (Value (RType [] [] KPtr (Some e)) ZeroC)))"

section \<open>Server (server/server.go)\<close>

record Server =
  serviceMap :: "string \<rightharpoonup> Service"

definition NewServer :: Server where
  "NewServer = \<lparr>serviceMap = Map.empty\<rparr>"

text \<open>
  \<^verbatim>\<open>Register\<close>: \<^verbatim>\<open>LoadOrStore\<close> keeps the stored service when the name is present and
  stores the new one otherwise. The result is the fault of \<^verbatim>\<open>NewService\<close> or the error
  returned (\<open>None\<close> for nil).
\<close>

definition Register ::
  "(string \<Rightarrow> bool) \<Rightarrow> receiver \<Rightarrow> Server \<Rightarrow> (fault + string option) \<times> Server" where
  "Register exported rcvr s =
     (case NewService exported rcvr of
        Inl f \<Rightarrow> (Inl f, s)
      | Inr svc \<Rightarrow>
          (case serviceMap s (Name svc) of
             Some _ \<Rightarrow> (Inr (Some (''rpc: service already defined: '' @ Name svc)), s)
           | None \<Rightarrow> (Inr None, s\<lparr>serviceMap := (serviceMap s)(Name svc \<mapsto> svc)\<rparr>)))"

text \<open>
  \<^verbatim>\<open>strings.LastIndex(s, ".")\<close> for a one-byte separator: the index of its last
  occurrence, or -1.
\<close>

definition LastIndex :: "string \<Rightarrow> char \<Rightarrow> int" where
  "LastIndex s ch =
     (case filter (\<lambda>i. s ! i = ch) (rev [0 ..< length s]) of
        [] \<Rightarrow> - 1
      | i # _ \<Rightarrow> int i)"

text \<open>
  \<^verbatim>\<open>findService\<close>, with its three named results: the service, the method type and the
  error, each \<open>None\<close> where the Go value is nil.
\<close>

definition findService ::
  "Server \<Rightarrow> string \<Rightarrow> Service option \<times> MethodType option \<times> string option" where
  "findService s serviceMethod =
     (let dot = LastIndex serviceMethod CHR ''.''
      in if dot < 0
         then (None, None,
               Some (''rpc server: service/method request ill-formed: '' @ serviceMethod))
         else
           (let serviceName = take (nat dot) serviceMethod;
                methodName = drop (nat (dot + 1)) serviceMethod
            in case serviceMap s serviceName of
                 None \<Rightarrow>
                   (None, None,
                    Some (''rpc server: can'' @ [CHR 0x27] @ ''t find service '' @ serviceName))
               | Some svc \<Rightarrow>
                   (case Methods svc methodName of
                      None \<Rightarrow>
                        (Some svc, None,
                         Some (''rpc server: can'' @ [CHR 0x27] @ ''t find method ''
                               @ methodName))
                    | Some mtype \<Rightarrow> (Some svc, Some mtype, None))))"

subsection \<open>A sample service\<close>

text \<open>
  The service of the repository's client test, \<^verbatim>\<open>type Bar int\<close> with
  \<^verbatim>\<open>func (b Bar) Timeout(argv int, reply *int) error\<close>, registered as \<^verbatim>\<open>&b\<close>, and next
  to it a method \<^verbatim>\<open>func (b Bar) Echo(argv int, reply int) error\<close> whose reply is not a
  pointer.
\<close>

definition ptrTo :: "rtype \<Rightarrow> rtype" where
  "ptrTo t = RType [] [] KPtr (Some t)"

definition intType :: rtype where
  "intType = RType ''int'' [] KInt None"

definition barType :: rtype where
  "barType = RType ''Bar'' ''xxrpc/client'' KInt None"

definition timeoutMethod :: Method where
  "timeoutMethod =
     \<lparr>MName = ''Timeout'', In = [ptrTo barType, intType, ptrTo intType], Out = [errorType]\<rparr>"

definition echoMethod :: Method where
  "echoMethod =
     \<lparr>MName = ''Echo'', In = [ptrTo barType, intType, intType], Out = [errorType]\<rparr>"

definition barRcvr :: receiver where
  "barRcvr = \<lparr>rTyp = ptrTo barType, rMethods = [echoMethod, timeoutMethod], rNil = False\<rparr>"

definition barService :: Service where
  "barService =
     \<lparr>Name = ''Bar'', Typ = ptrTo barType, Rcvr = barRcvr,
      Methods = [''Echo'' \<mapsto> \<lparr>MMethod = echoMethod, ArgType = intType, ReplyType = intType,
                                NumCalls = 0\<rparr>,
                 ''Timeout'' \<mapsto> \<lparr>MMethod = timeoutMethod, ArgType = intType,
                                   ReplyType = ptrTo intType, NumCalls = 0\<rparr>]\<rparr>"

definition barServer :: Server where
  "barServer = \<lparr>serviceMap = [''Bar'' \<mapsto> barService]\<rparr>"

text \<open>
  A codec on which every body decodes, and a stream of two requests: the first names a
  service that is not registered, the second is \<^verbatim>\<open>Bar.Timeout\<close>.
\<close>

definition decodesAll :: "rtype \<Rightarrow> string \<Rightarrow> bool" where
  "decodesAll t b = True"

definition bazHeader :: Header where
  "bazHeader = \<lparr>ServiceMethod = ''Baz.Timeout'', SeqId = 1, Error = []\<rparr>"

definition barHeader :: Header where
  "barHeader = \<lparr>ServiceMethod = ''Bar.Timeout'', SeqId = 2, Error = []\<rparr>"

subsection \<open>The codec as the server uses it\<close>

text \<open>
  \<^verbatim>\<open>xxcode.Code\<close> is an interface over a byte stream; the gob implementation hands every
  read to one decoder, which takes the next message off the stream and decodes it into
  the destination. The stream, \<open>unread\<close>, is the list of messages still to be read: a message that
  decodes as the header \<open>h\<close> is \<open>HeaderFrame h\<close>, any other message is a \<open>BodyFrame\<close>
  with its bytes. A message is consumed whether or not it decodes into the destination.
  \<open>written\<close> collects the header and body pairs written, and \<open>closed\<close> is set by
  \<^verbatim>\<open>Close\<close>. Reads and writes on a closed codec fail; a write on an open one succeeds.
\<close>

datatype frame = HeaderFrame Header | BodyFrame string

record Codec =
  unread :: "frame list"
  written :: "(Header \<times> rvalue) list"
  closed :: bool

definition ReadHeader :: "Codec \<Rightarrow> (string + Header) \<times> Codec" where
  "ReadHeader cc =
     (if closed cc then (Inl ''use of closed network connection'', cc)
      else case unread cc of
             [] \<Rightarrow> (Inl ''EOF'', cc)
           | HeaderFrame h # fs \<Rightarrow> (Inr h, cc\<lparr>unread := fs\<rparr>)
           | BodyFrame b # fs \<Rightarrow> (Inl ''gob: type mismatch'', cc\<lparr>unread := fs\<rparr>))"

text \<open>
  \<^verbatim>\<open>ReadBody\<close> into a destination of type \<open>t\<close>, or into nil (\<open>None\<close>), which discards
  the message. Whether the bytes of a body decode into a type is up to gob: it is the
  argument \<open>decodes\<close>. The result is the error and the decoded content.
\<close>

definition ReadBody ::
  "(rtype \<Rightarrow> string \<Rightarrow> bool) \<Rightarrow> rtype option \<Rightarrow> Codec \<Rightarrow> (string option \<times> content) \<times> Codec" where
  "ReadBody decodes dest cc =
     (if closed cc then ((Some ''use of closed network connection'', ZeroC), cc)
      else case unread cc of
             [] \<Rightarrow> ((Some ''EOF'', ZeroC), cc)
           | f # fs \<Rightarrow>
               (case dest of
                  None \<Rightarrow> ((None, ZeroC), cc\<lparr>unread := fs\<rparr>)
                | Some t \<Rightarrow>
                    (case f of
                       BodyFrame b \<Rightarrow>
                         if decodes t b then ((None, DataC b), cc\<lparr>unread := fs\<rparr>)
                         else ((Some ''gob: type mismatch'', ZeroC), cc\<lparr>unread := fs\<rparr>)
                     | HeaderFrame h \<Rightarrow>
                         ((Some ''gob: type mismatch'', ZeroC), cc\<lparr>unread := fs\<rparr>))))"

definition Write :: "Header \<Rightarrow> rvalue \<Rightarrow> Codec \<Rightarrow> string option \<times> Codec" where
  "Write h body cc =
     (if closed cc then (Some ''use of closed network connection'', cc)
      else (None, cc\<lparr>written := written cc @ [(h, body)]\<rparr>))"

subsection \<open>Reading requests\<close>

text \<open>\<^verbatim>\<open>invalidRequest\<close>, the placeholder body \<^verbatim>\<open>struct{}{}\<close>.\<close>

definition invalidRequest :: rvalue where
  "invalidRequest = Value (RType [] [] KStruct None) ZeroC"

record request =
  head :: Header
  argv :: rvalue
  replyv :: rvalue
  mtype :: "MethodType option"
  svc :: "Service option"

definition readRequestHeader :: "Codec \<Rightarrow> (string + Header) \<times> Codec" where
  "readRequestHeader cc = ReadHeader cc"

text \<open>
  The three shapes of what \<^verbatim>\<open>readRequest\<close> returns: a nil request with an error, a
  request with an error, a request with a nil error.
\<close>

datatype read_result =
    NoRequest string
  | BadRequest request string
  | GoodRequest request

definition readRequest ::
  "(rtype \<Rightarrow> string \<Rightarrow> bool) \<Rightarrow> Server \<Rightarrow> Codec \<Rightarrow> fault + (read_result \<times> Codec)" where
  "readRequest decodes s cc =
     (case readRequestHeader cc of
        (Inl err, cc1) \<Rightarrow> Inr (NoRequest err, cc1)
      | (Inr h, cc1) \<Rightarrow>
          (let req = \<lparr>head = h, argv = ZeroValue, replyv = ZeroValue, mtype = None, svc = None\<rparr>
           in case findService s (ServiceMethod h) of
                (sv, mt, err) \<Rightarrow>
                  (let req0 = req\<lparr>svc := sv, mtype := mt\<rparr>
                   in case err of
                        Some e \<Rightarrow> Inr (BadRequest req0 e, cc1)
                      | None \<Rightarrow>
                          (case mt of
                             None \<Rightarrow> Inl (Panic ''nil pointer dereference'')
                           | Some m \<Rightarrow>
                               (case NewReplyv m of
                                  Inl p \<Rightarrow> Inl (Panic p)
                                | Inr rv \<Rightarrow>
                                    (let req1 = req0\<lparr>argv := NewArgv m, replyv := rv\<rparr>
                                     in case ReadBody decodes (Some (ArgType m)) cc1 of
                                          ((Some e, d), cc2) \<Rightarrow> Inr (BadRequest req1 e, cc2)
                                        | ((None, d), cc2) \<Rightarrow>
                                            Inr (GoodRequest
                                                   (req1\<lparr>argv := Value (ArgType m) d\<rparr>),
                                                 cc2)))))))"

definition sendResponse :: "Header \<Rightarrow> rvalue \<Rightarrow> Codec \<Rightarrow> Codec" where
  "sendResponse h body cc = snd (Write h body cc)"

text \<open>
  The loop of \<^verbatim>\<open>serveCode\<close>. A handler started with \<^verbatim>\<open>go s.handleRequest\<close> runs beside
  the loop; the loop's own effect is to add the request to those handed to handlers.
  The result is the codec when the loop is left, and these requests.
\<close>

function serveLoop ::
  "(rtype \<Rightarrow> string \<Rightarrow> bool) \<Rightarrow> Server \<Rightarrow> Codec \<Rightarrow> request list \<Rightarrow> fault + (Codec \<times> request list)" where
  "serveLoop decodes s cc spawned =
     (case readRequest decodes s cc of
        Inl f \<Rightarrow> Inl f
      | Inr (NoRequest err, cc1) \<Rightarrow> Inr (cc1, spawned)
      | Inr (BadRequest req err, cc1) \<Rightarrow>
          serveLoop decodes s (sendResponse ((head req)\<lparr>Error := err\<rparr>) invalidRequest cc1)
            spawned
      | Inr (GoodRequest req, cc1) \<Rightarrow> serveLoop decodes s cc1 (spawned @ [req]))"
  by pat_completeness auto
termination
  apply (relation "measure (\<lambda>(decodes, s, cc, spawned). length (unread cc))")
    apply simp
   apply (auto simp: readRequest_def readRequestHeader_def ReadHeader_def ReadBody_def Let_def
      sendResponse_def Write_def
      split: if_splits list.splits frame.splits prod.splits option.splits sum.splits)
  done

text \<open>
  \<^verbatim>\<open>serveCode\<close>: the loop, then \<^verbatim>\<open>wg.Wait()\<close> for the handlers and \<^verbatim>\<open>cc.Close()\<close>.
\<close>

definition serveCode ::
  "(rtype \<Rightarrow> string \<Rightarrow> bool) \<Rightarrow> Server \<Rightarrow> Codec \<Rightarrow> fault + (Codec \<times> request list)" where
  "serveCode decodes s cc =
     (case serveLoop decodes s cc [] of
        Inl f \<Rightarrow> Inl f
      | Inr (cc1, spawned) \<Rightarrow> Inr (cc1\<lparr>closed := True\<rparr>, spawned))"

definition twoRequests :: Codec where
  "twoRequests =
     \<lparr>unread = [HeaderFrame bazHeader, BodyFrame ''1'', HeaderFrame barHeader, BodyFrame ''2''],
      written = [], closed = False\<rparr>"

section \<open>Timeouts\<close>

text \<open>
  Both timeouts are a \<^verbatim>\<open>select\<close> between \<^verbatim>\<open>time.After(d)\<close> and a channel on which a
  worker goroutine delivers when it is done. What the worker computes and how long it
  takes are inputs: \<open>At t v\<close> is a worker that delivers \<open>v\<close> at \<open>t\<close> nanoseconds after
  the start, \<open>Never\<close> one that does not return. The timer of \<^verbatim>\<open>time.After(d)\<close> is ready
  at \<open>d\<close>. The \<^verbatim>\<open>select\<close> takes the case that is ready first; where both are ready at the
  same instant Go chooses either, and the choice is the argument \<open>timerFirst\<close>.
  \<open>None\<close> is the timer's case, \<open>Some v\<close> the channel's.
\<close>

datatype 'a timed = Never | At int 'a

definition selectAfter :: "int \<Rightarrow> 'a timed \<Rightarrow> bool \<Rightarrow> 'a option" where
  "selectAfter d w timerFirst =
     (case w of
        Never \<Rightarrow> None
      | At t v \<Rightarrow>
          if t < d then Some v
          else if d < t then None
          else if timerFirst then None else Some v)"

subsection \<open>Options (common package)\<close>

text \<open>\<^verbatim>\<open>time.Duration\<close> is a number of nanoseconds.\<close>

record Option =
  MagicNumber :: int
  CodeType :: string
  ConnectTimeout :: int
  HandleTimeout :: int

definition DefaultOption :: Option where
  "DefaultOption =
     \<lparr>MagicNumber = 0x3bef5c, CodeType = ''application/gob'',
      ConnectTimeout = 10 * 1000000000, HandleTimeout = 0\<rparr>"

text \<open>
  \<^verbatim>\<open>parseOptions\<close> on the variadic \<^verbatim>\<open>opts\<close>, a list of pointers of which each may be
  nil (\<open>None\<close>).
\<close>

definition parseOptions :: "Option option list \<Rightarrow> string + Option" where
  "parseOptions opts =
     (case opts of
        [] \<Rightarrow> Inr DefaultOption
      | None # _ \<Rightarrow> Inr DefaultOption
      | Some opt # rest \<Rightarrow>
          if length opts \<noteq> 1 then Inl ''number of options is more than 1''
          else
            (let opt1 = opt\<lparr>MagicNumber := MagicNumber DefaultOption\<rparr>
             in Inr (if CodeType opt1 = []
                     then opt1\<lparr>CodeType := CodeType DefaultOption\<rparr> else opt1)))"

subsection \<open>The connect timeout of the client\<close>

text \<open>
  What \<^verbatim>\<open>dialTimeout\<close> returns, and whether it closed the connection it had dialled.
\<close>

record dial_result =
  resClient :: "Client option"
  resErr :: "string option"
  connClosed :: bool

text \<open>
  \<^verbatim>\<open>dialTimeout\<close>. The factory \<open>f\<close> is given by what it delivers for an option and
  when; \<open>dialErr\<close> is the error of \<^verbatim>\<open>net.DialTimeout\<close> (\<open>None\<close> for a connection);
  \<open>durationString\<close> is the \<^verbatim>\<open>String\<close> method of \<^verbatim>\<open>time.Duration\<close>, which \<^verbatim>\<open>%s\<close>
  prints. The deferred function closes the connection when the error returned is not
  nil. The result is \<open>None\<close> when the call never returns.
\<close>

definition dialTimeout ::
  "(int \<Rightarrow> string) \<Rightarrow> (Option \<Rightarrow> (Client option \<times> string option) timed) \<Rightarrow> string option
     \<Rightarrow> Option option list \<Rightarrow> bool \<Rightarrow> dial_result option" where
  "dialTimeout durationString f dialErr opts timerFirst =
     (case parseOptions opts of
        Inl e \<Rightarrow> Some \<lparr>resClient = None, resErr = Some e, connClosed = False\<rparr>
      | Inr opt \<Rightarrow>
          (case dialErr of
             Some e \<Rightarrow> Some \<lparr>resClient = None, resErr = Some e, connClosed = False\<rparr>
           | None \<Rightarrow>
               if ConnectTimeout opt = 0 then
                 (case f opt of
                    Never \<Rightarrow> None
                  | At t (cl, e) \<Rightarrow> Some \<lparr>resClient = cl, resErr = e, connClosed = (e \<noteq> None)\<rparr>)
               else
                 (case selectAfter (ConnectTimeout opt) (f opt) timerFirst of
                    None \<Rightarrow>
                      Some \<lparr>resClient = None,
                            resErr = Some (''rpc client: connect timeout: expect within ''
                                        @ durationString (ConnectTimeout opt)),
                            connClosed = True\<rparr>
                  | Some (cl, e) \<Rightarrow>
                      Some \<lparr>resClient = cl, resErr = e, connClosed = (e \<noteq> None)\<rparr>)))"

subsection \<open>The handle timeout of the server\<close>

text \<open>
  The worker of \<^verbatim>\<open>handleRequest\<close> after \<^verbatim>\<open>req.svc.Call\<close> has returned \<open>e\<close> and left
  \<open>reply\<close> in \<^verbatim>\<open>req.replyv\<close>, and after its send on \<^verbatim>\<open>called\<close> was received: it writes
  the error response with the placeholder body, or the reply.
\<close>

definition workerResponse :: "request \<Rightarrow> string option \<times> rvalue \<Rightarrow> Codec \<Rightarrow> Codec" where
  "workerResponse req r cc =
     (case r of
        (Some e, reply) \<Rightarrow> sendResponse ((head req)\<lparr>Error := e\<rparr>) invalidRequest cc
      | (None, reply) \<Rightarrow> sendResponse (head req) reply cc)"

text \<open>How the parent of \<^verbatim>\<open>handleRequest\<close> came to return.\<close>

datatype handled = AwaitedSent | TimedOut

text \<open>
  \<^verbatim>\<open>handleRequest\<close>. The call of the method is given by what it returns and when. With
  a zero timeout the parent receives from \<^verbatim>\<open>called\<close> and then from \<^verbatim>\<open>sent\<close>. Otherwise
  it selects between the timer and \<^verbatim>\<open>called\<close>: on the timer it writes the timeout
  response itself and returns, and the worker, whose send on the unbuffered \<^verbatim>\<open>called\<close>
  finds no receiver any more, writes nothing; on \<^verbatim>\<open>called\<close> it receives from \<^verbatim>\<open>sent\<close>,
  which the worker sends after its response. The result is the codec when the parent
  returns and how it returned, or \<open>None\<close> when it never returns.
\<close>

definition handleRequest ::
  "(int \<Rightarrow> string) \<Rightarrow> request \<Rightarrow> int \<Rightarrow> (string option \<times> rvalue) timed \<Rightarrow> bool \<Rightarrow> Codec
     \<Rightarrow> (Codec \<times> handled) option" where
  "handleRequest durationString req timeout call timerFirst cc =
     (if timeout = 0 then
        (case call of
           Never \<Rightarrow> None
         | At t r \<Rightarrow> Some (workerResponse req r cc, AwaitedSent))
      else
        (case selectAfter timeout call timerFirst of
           None \<Rightarrow>
             Some (sendResponse
                     ((head req)\<lparr>Error := ''rpc server: request handle timeout: expect within ''
                                          @ durationString timeout\<rparr>)
                     invalidRequest cc,
                   TimedOut)
         | Some r \<Rightarrow> Some (workerResponse req r cc, AwaitedSent)))"

text \<open>
  A \<^verbatim>\<open>String\<close> of durations for the examples: right on whole seconds below ten, which
  Go prints as \<^verbatim>\<open>1s\<close>, ..., \<^verbatim>\<open>9s\<close>.
\<close>

definition secondsString :: "int \<Rightarrow> string" where
  "secondsString d =
     (if d mod 1000000000 = 0 \<and> 0 < d \<and> d < 10 * 1000000000
      then [''123456789'' ! nat (d div 1000000000 - 1), CHR ''s'']
      else ''?'')"

text \<open>
  The factory of the repository's test of \<^verbatim>\<open>dialTimeout\<close>: it sleeps two seconds and
  returns a nil client and a nil error. And a method call that takes two seconds and
  returns nil, as \<^verbatim>\<open>Bar.Timeout\<close> does.
\<close>

definition sleepyFactory :: "Option \<Rightarrow> (Client option \<times> string option) timed" where
  "sleepyFactory opt = At (2 * 1000000000) (None, None)"

definition sleepyCall :: "(string option \<times> rvalue) timed" where
  "sleepyCall = At (2 * 1000000000) (None, Value (ptrTo intType) ZeroC)"

definition barRequest :: request where
  "barRequest =
     \<lparr>head = barHeader, argv = Value intType (DataC ''1''),
      replyv = Value (ptrTo intType) ZeroC,
      mtype = Some \<lparr>MMethod = timeoutMethod, ArgType = intType, ReplyType = ptrTo intType,
                     NumCalls = 0\<rparr>,
      svc = Some barService\<rparr>"

definition emptyCodec :: Codec where
  "emptyCodec = \<lparr>unread = [], written = [], closed = False\<rparr>"

section \<open>The goroutines of a client\<close>

text \<open>
  A client is used by the goroutines that call \<^verbatim>\<open>Go\<close>, \<^verbatim>\<open>Call\<close> and \<^verbatim>\<open>Close\<close> and by its
  reader, \<^verbatim>\<open>receive\<close>. Their steps interleave, and the two mutexes decide how: a step
  is a stretch of code that runs under \<^verbatim>\<open>mu\<close>, with the writes to the one call it
  found or made, which no other goroutine holds at that moment.

  Beside the client the system keeps where the goroutines stand: the send that holds
  the mutex \<^verbatim>\<open>sending\<close> between its registration and the return of \<^verbatim>\<open>cc.Write\<close> (its
  call, its sequence id, and whether \<^verbatim>\<open>Call\<close> made it); the state of the reader (in its
  loop, out of the loop with an error and about to call \<^verbatim>\<open>terminateCalls\<close>, or done);
  the calls whose \<^verbatim>\<open>Call\<close> stands at its \<^verbatim>\<open>select\<close>; and the history of what happened to
  which call.
\<close>

datatype reader_state = Reading | Exiting string | Terminated

datatype life =
    Registered
  | Rejected
  | CompletedOK
  | ErrorViaReader
  | ErrorViaTerminate
  | ErrorViaSendFailure
  | RemovedByCancel

record sys =
  cl :: Client
  sending :: "(nat \<times> uint64 \<times> bool) option"
  reader :: reader_state
  awaiting :: "nat set"
  hist :: "(nat \<times> life) list"







text \<open>
  What the history says of one call, in order, and whether an entry is a completion,
  that is a step that signals the call on its \<^verbatim>\<open>Done\<close> channel.
\<close>

definition life_of :: "nat \<Rightarrow> (nat \<times> life) list \<Rightarrow> life list" where
  "life_of call h = map snd (filter (\<lambda>x. fst x = call) h)"









section \<open>Properties of the client\<close>

subsection \<open>Sequence ids\<close>

lemma terminateLoop_frame:
  "seq (terminateLoop err ks c) = seq c \<and> pending (terminateLoop err ks c) = pending c
   \<and> closing (terminateLoop err ks c) = closing c \<and> shutdown (terminateLoop err ks c) = shutdown c"
  by (induction ks arbitrary: c) (auto simp: call_done_def setError_def Let_def split: option.splits)

lemma apply_op_inv:
  assumes "seq_inv n c" "apply_op x c = (c', ids)" "n + length ids < 2 ^ 64"
  shows "seq_inv (n + length ids) c' \<and> map unat ids = [Suc n ..< Suc (n + length ids)]"
proof (cases x)
  case (OpRegister call)
  show ?thesis
  proof (cases "closing c \<or> shutdown c")
    case True
    with assms OpRegister show ?thesis by (auto simp: registerCall_def)
  next
    case False
    with assms OpRegister have ids: "ids = [seq c]" and c': "c' = snd (registerCall call c)"
      by (auto simp: registerCall_def)
    from assms(3) ids have lt: "Suc n < 2 ^ 64" by simp
    have u: "unat (word_of_nat (Suc n) :: uint64) = Suc n"
      using lt by (simp add: unat_of_nat del: of_nat_Suc)
    have "seq c' = word_of_nat (Suc (Suc n))"
      using assms(1) c' False by (simp add: registerCall_def seq_inv_def)
    moreover have "\<forall>k \<in> dom (pending c'). 1 \<le> unat k \<and> unat k \<le> Suc n"
    proof
      fix k assume k: "k \<in> dom (pending c')"
      show "1 \<le> unat k \<and> unat k \<le> Suc n"
      proof (cases "k = seq c")
        case True
        with assms(1) u show ?thesis by (simp add: seq_inv_def del: of_nat_Suc)
      next
        case F: False
        with k c' False have "k \<in> dom (pending c)" by (auto simp: registerCall_def)
        with assms(1) have "1 \<le> unat k \<and> unat k \<le> n" unfolding seq_inv_def by blast
        then show ?thesis by simp
      qed
    qed
    ultimately show ?thesis using ids assms(1) u by (simp add: seq_inv_def del: of_nat_Suc)
  qed
next
  case (OpRemove s)
  with assms show ?thesis by (auto simp: removeCall_def seq_inv_def split: if_splits)
next
  case (OpTerminate err order)
  with assms show ?thesis by (auto simp: terminateCalls_def terminateLoop_frame seq_inv_def)
next
  case OpClose
  have "seq (snd (Close None c)) = seq c" "pending (snd (Close None c)) = pending c"
    by (simp_all add: Close_def)
  with OpClose assms show ?thesis by (auto simp: seq_inv_def)
qed

lemma run_ops_inv:
  "seq_inv n c \<Longrightarrow> run_ops xs c = (c', ids) \<Longrightarrow> n + length ids < 2 ^ 64 \<Longrightarrow>
   seq_inv (n + length ids) c' \<and> map unat ids = [Suc n ..< Suc (n + length ids)]"
proof (induction xs arbitrary: n c c' ids)
  case Nil
  then show ?case by simp
next
  case (Cons x xs)
  obtain c1 ids1 where a: "apply_op x c = (c1, ids1)" by (cases "apply_op x c")
  obtain c2 ids2 where r: "run_ops xs c1 = (c2, ids2)" by (cases "run_ops xs c1")
  from Cons.prems(2) a r have e: "c' = c2" "ids = ids1 @ ids2" by auto
  from Cons.prems(3) e have b1: "n + length ids1 < 2 ^ 64" by simp
  from apply_op_inv[OF Cons.prems(1) a b1]
  have i1: "seq_inv (n + length ids1) c1" and m1: "map unat ids1 = [Suc n ..< Suc (n + length ids1)]" by auto
  from Cons.prems(3) e have b2: "(n + length ids1) + length ids2 < 2 ^ 64" by simp
  from Cons.IH[OF i1 r b2]
  have i2: "seq_inv (n + length ids1 + length ids2) c2"
    and m2: "map unat ids2 = [Suc (n + length ids1) ..< Suc (n + length ids1 + length ids2)]" by auto
  have "[Suc n ..< Suc (n + length ids1)] @ [Suc (n + length ids1) ..< Suc (n + length ids1 + length ids2)]
        = [Suc n ..< Suc (n + length ids1 + length ids2)]"
    by (metis Suc_le_mono le_add1 upt_add_eq_append add_Suc)
  with i2 m1 m2 e show ?case by (simp add: add.assoc)
qed

lemma init_inv: "seq_inv 0 newClientCode"
  by (simp add: seq_inv_def newClientCode_def)


lemma go_ok_open:
  assumes "\<not> closing c" "\<not> shutdown c"
  shows "seq (go_ok c) = seq c + 1 \<and> ncalls (go_ok c) = Suc (ncalls c)
    \<and> \<not> closing (go_ok c) \<and> \<not> shutdown (go_ok c)
    \<and> pending (go_ok c) = (pending c)(seq c \<mapsto> ncalls c)"
  using assms by (simp add: go_ok_def Go_def Go_alloc_def makeChan_def send_def send_register_def send_write_def registerCall_def Let_def)

lemma go_ok_funpow:
  "seq ((go_ok ^^ n) newClientCode) = word_of_nat n + 1
   \<and> ncalls ((go_ok ^^ n) newClientCode) = n
   \<and> \<not> closing ((go_ok ^^ n) newClientCode) \<and> \<not> shutdown ((go_ok ^^ n) newClientCode)
   \<and> (0 < n \<longrightarrow> pending ((go_ok ^^ n) newClientCode) (word_of_nat n) = Some (n - 1))"
proof (induction n)
  case 0
  show ?case by (simp add: newClientCode_def)
next
  case (Suc n)
  let ?c = "(go_ok ^^ n) newClientCode"
  from Suc have o: "\<not> closing ?c" "\<not> shutdown ?c" by auto
  from go_ok_open[OF o] Suc show ?case by (simp add: add.commute)
qed

lemma wrapped_closed_facts:
  "closing wrapped_closed \<and> ncalls wrapped_closed = 2 ^ 64
   \<and> pending wrapped_closed 0 = Some (2 ^ 64 - 1)"
proof -
  define c0 where "c0 = (go_ok ^^ (2 ^ 64)) newClientCode"
  have pos: "0 < (2::nat) ^ 64" by simp
  from go_ok_funpow[of "2 ^ 64"] pos
  have n: "ncalls c0 = 2 ^ 64" and o: "\<not> closing c0"
    and p: "pending c0 (word_of_nat (2 ^ 64)) = Some (2 ^ 64 - 1)"
    unfolding c0_def by blast+
  have z: "(word_of_nat (2 ^ 64) :: uint64) = 0" by simp
  have p0: "pending c0 0 = Some (2 ^ 64 - 1)" using p unfolding z .
  have w: "wrapped_closed = snd (Close None c0)" by (simp add: wrapped_closed_def c0_def)
  show ?thesis unfolding w using n o p0 by (simp add: Close_def)
qed

text \<open>
  C6, as stated, fails where the counter wraps: \<open>seq\<close> is a \<^verbatim>\<open>uint64\<close>, and on a client
  that has issued \<open>2 ^ 64 - 1\<close> calls the next registration succeeds with the sequence id 0.
\<close>

theorem seq_id_zero_after_wrap:
  "fst (registerCall (2 ^ 64 - 1) ((go_ok ^^ (2 ^ 64 - 1)) newClientCode)) = (0, None)"
proof -
  let ?c = "(go_ok ^^ (2 ^ 64 - 1)) newClientCode"
  from go_ok_funpow[of "2 ^ 64 - 1"]
  have s: "seq ?c = word_of_nat (2 ^ 64 - 1) + 1" and o: "\<not> closing ?c" "\<not> shutdown ?c"
    by blast+
  have "(word_of_nat (2 ^ 64 - 1) + 1 :: uint64) = 0" by simp
  with s have "seq ?c = 0" by simp
  with o show ?thesis by (simp add: registerCall_def)
qed

text \<open>
  C6, amended: on any run of a client from \<^verbatim>\<open>newClientCode\<close>, as long as the registrations
  that succeeded number less than \<open>2 ^ 64\<close>, the ids they returned are 1, 2, 3, ... in this
  order: the first is 1, 0 is not among them, each is larger than the one before, none
  occurs twice. While they number less than \<open>2 ^ 64 - 1\<close> the next id to be assigned is not
  pending, so a registration never takes the id of a call that is still pending.
\<close>

theorem seq_ids_monotonic:
  assumes "run_ops ops newClientCode = (c, ids)" and "length ids < 2 ^ 64"
  shows "map unat ids = [1 ..< Suc (length ids)] \<and> 0 \<notin> set ids \<and> sorted_wrt (<) ids \<and> distinct ids
     \<and> (length ids < 2 ^ 64 - 1 \<longrightarrow> pending c (seq c) = None)"
proof -
  from run_ops_inv[OF init_inv assms(1)] assms(2)
  have inv: "seq_inv (length ids) c" and m: "map unat ids = [1 ..< Suc (length ids)]" by auto
  have z: "0 \<notin> set ids"
  proof
    assume "0 \<in> set ids"
    then have "unat (0::uint64) \<in> unat ` set ids" by (rule imageI)
    then have "(0::nat) \<in> set (map unat ids)" by simp
    with m have "(0::nat) \<in> set [1 ..< Suc (length ids)]" by metis
    then show False by auto
  qed
  have "sorted_wrt (<) (map unat ids)" unfolding m by (rule sorted_wrt_upt)
  then have s: "sorted_wrt (<) ids" by (simp add: sorted_wrt_map word_less_nat_alt[symmetric])
  have "distinct (map unat ids)" unfolding m by (rule distinct_upt)
  then have d: "distinct ids" by (simp add: distinct_map)
  have p: "pending c (seq c) = None" if lt: "length ids < 2 ^ 64 - 1"
  proof (rule ccontr)
    assume "pending c (seq c) \<noteq> None"
    then have "seq c \<in> dom (pending c)" by auto
    with inv have "unat (seq c) \<le> length ids" unfolding seq_inv_def by blast
    moreover have "unat (seq c) = Suc (length ids)"
      using inv lt by (simp add: seq_inv_def unat_of_nat del: of_nat_Suc)
    ultimately show False by simp
  qed
  from m z s d p show ?thesis by blast
qed

theorem seq_ids_monotonic_witness:
  "run_ops [OpRegister 0, OpRegister 1, OpRemove 1, OpRegister 2, OpClose, OpRegister 3]
          newClientCode
     = (fst (run_ops [OpRegister 0, OpRegister 1, OpRemove 1, OpRegister 2, OpClose,
          OpRegister 3] newClientCode), [1, 2, 3])
   \<and> length [1, 2, 3 :: uint64] < 2 ^ 64 - 1
   \<and> map unat [1, 2, 3 :: uint64] = [1 ..< Suc (length [1, 2, 3 :: uint64])]
   \<and> sorted_wrt (<) [1, 2, 3 :: uint64]
   \<and> seq (fst (run_ops [OpRegister 0, OpRegister 1, OpRemove 1, OpRegister 2, OpClose,
          OpRegister 3] newClientCode)) = 4
   \<and> pending (fst (run_ops [OpRegister 0, OpRegister 1, OpRemove 1, OpRegister 2, OpClose,
          OpRegister 3] newClientCode)) 4 = None"
proof -
  define c where "c = fst (run_ops [OpRegister 0, OpRegister 1, OpRemove 1, OpRegister 2,
     OpClose, OpRegister 3] newClientCode)"
  have r: "run_ops [OpRegister 0, OpRegister 1, OpRemove 1, OpRegister 2, OpClose, OpRegister 3]
     newClientCode = (c, [1, 2, 3])"
    unfolding c_def
    by (simp add: registerCall_def removeCall_def Close_def newClientCode_def prod_eq_iff)
  have s: "seq c = 4"
    unfolding c_def
    by (simp add: registerCall_def removeCall_def Close_def newClientCode_def)
  have l: "length [1, 2, 3 :: uint64] < 2 ^ 64" by simp
  have l': "length [1, 2, 3 :: uint64] < 2 ^ 64 - 1" by simp
  from seq_ids_monotonic[OF r l] l'
  have "map unat [1, 2, 3 :: uint64] = [1 ..< Suc (length [1, 2, 3 :: uint64])]"
    and "sorted_wrt (<) [1, 2, 3 :: uint64]" and "pending c (seq c) = None" by blast+
  with r s l' show ?thesis unfolding c_def by metis
qed



subsection \<open>A client that is closing or shut down\<close>

lemma send_closed:
  assumes "closing c \<or> shutdown c"
  shows "send werr call c = call_done call (setError call (Some ''connection is closed'') c)"
  using assms by (simp add: send_def send_register_def registerCall_def)





subsection \<open>Removing a call that is not pending\<close>

text \<open>
  C10, as stated, fails where the counter has wrapped: after \<open>2 ^ 64\<close> calls the id 0 is
  pending (it belongs to call \<open>2 ^ 64 - 1\<close>). A \<^verbatim>\<open>Call\<close> on the then closed client fails to
  register, keeps \<^verbatim>\<open>Seq\<close> 0, and its cancellation path removes the entry of that other
  call.
\<close>

theorem cancel_removes_other_call_after_wrap:
  "Call_Go None [] [] [] wrapped_closed = Inr (2 ^ 64, late_client)
   \<and> Call_completed (2 ^ 64) late_client = Some ''connection is closed''
   \<and> Seq (calls late_client (2 ^ 64)) = 0
   \<and> pending late_client 0 = Some (2 ^ 64 - 1)
   \<and> pending (snd (Call_cancelled ''context deadline exceeded'' (2 ^ 64) late_client)) 0 = None"
proof -
  from wrapped_closed_facts have cl: "closing wrapped_closed"
    and n: "ncalls wrapped_closed = 2 ^ 64"
    and p: "pending wrapped_closed 0 = Some (2 ^ 64 - 1)" by blast+
  have g: "Call_Go None [] [] [] wrapped_closed = Inr (2 ^ 64, late_client)"
    unfolding late_client_def using n
    by (simp add: Call_Go_def Go_def Go_alloc_def makeChan_def Let_def)
  have s: "Seq (calls late_client (2 ^ 64)) = 0 \<and> pending late_client = pending wrapped_closed
     \<and> CallError (calls late_client (2 ^ 64)) = Some ''connection is closed''"
    unfolding late_client_def using n cl
    by (simp add: Call_Go_def Go_def Go_alloc_def makeChan_def Let_def send_closed call_done_def setError_def)
  from g s p show ?thesis
    by (simp add: Call_cancelled_def removeCall_def Call_completed_def)
qed

text \<open>
  C10, amended: \<^verbatim>\<open>removeCall\<close> with an id that is not pending returns nil and leaves the
  whole client unchanged. On a run from \<^verbatim>\<open>newClientCode\<close> with less than \<open>2 ^ 64\<close>
  successful registrations the id 0 is not pending. A \<^verbatim>\<open>Call\<close> on a client that is
  closing or shut down keeps \<^verbatim>\<open>Seq\<close> 0, and where 0 is not pending its cancellation path
  returns "rpc client: call failed: ..." and leaves the client unchanged.
\<close>

theorem removeCall_absent_frame:
  "(pending c s = None \<longrightarrow> removeCall s c = (None, c))
   \<and> (run_ops ops newClientCode = (c0, ids) \<and> length ids < 2 ^ 64 \<longrightarrow> pending c0 0 = None)
   \<and> ((closing c1 \<or> shutdown c1) \<and> pending c1 0 = None
        \<and> Call_Go werr serviceMethod args reply c1 = Inr (call, c2) \<longrightarrow>
        Seq (calls c2 call) = 0
        \<and> Call_cancelled cause call c2 = (Some (''rpc client: call failed: '' @ cause), c2))"
proof (intro conjI impI)
  assume "pending c s = None"
  then have "(pending c)(s := None) = pending c" by (rule fun_upd_idem)
  then show "removeCall s c = (None, c)"
    using \<open>pending c s = None\<close> by (simp add: removeCall_def)
next
  assume a: "run_ops ops newClientCode = (c0, ids) \<and> length ids < 2 ^ 64"
  from run_ops_inv[OF init_inv, of ops c0 ids] a have inv: "seq_inv (length ids) c0" by simp
  show "pending c0 0 = None"
  proof (rule ccontr)
    assume "pending c0 0 \<noteq> None"
    then have "0 \<in> dom (pending c0)" by auto
    with inv have "1 \<le> unat (0::uint64)" unfolding seq_inv_def by blast
    then show False by simp
  qed
next
  assume a: "(closing c1 \<or> shutdown c1) \<and> pending c1 0 = None
        \<and> Call_Go werr serviceMethod args reply c1 = Inr (call, c2)"
  then have cl: "closing c1 \<or> shutdown c1" and p: "pending c1 0 = None"
    and g: "Call_Go werr serviceMethod args reply c1 = Inr (call, c2)" by blast+
  from g cl have f: "Seq (calls c2 call) = 0 \<and> pending c2 = pending c1"
    by (auto simp: Call_Go_def Go_def Go_alloc_def makeChan_def Let_def send_closed call_done_def setError_def)
  then show "Seq (calls c2 call) = 0" by simp
  from f p have "(pending c2)(0 := None) = pending c2" by (simp add: fun_upd_idem)
  with f show "Call_cancelled cause call c2 = (Some (''rpc client: call failed: '' @ cause), c2)"
    by (simp add: Call_cancelled_def removeCall_def)
qed

theorem removeCall_absent_frame_witness:
  "pending newClientCode 7 = None \<and> removeCall 7 newClientCode = (None, newClientCode)
   \<and> run_ops [OpRegister 0, OpClose] newClientCode
       = (fst (run_ops [OpRegister 0, OpClose] newClientCode), [1])
   \<and> pending (fst (run_ops [OpRegister 0, OpClose] newClientCode)) 0 = None
   \<and> closing (snd (Close None newClientCode))
   \<and> Call_Go None ''Foo.Sum'' ''1'' [] (snd (Close None newClientCode))
       = Inr (0, snd (projr (Call_Go None ''Foo.Sum'' ''1'' [] (snd (Close None newClientCode)))))
   \<and> Call_cancelled ''context canceled'' 0
        (snd (projr (Call_Go None ''Foo.Sum'' ''1'' [] (snd (Close None newClientCode)))))
       = (Some ''rpc client: call failed: context canceled'',
          snd (projr (Call_Go None ''Foo.Sum'' ''1'' [] (snd (Close None newClientCode)))))"
proof -
  define cc where "cc = snd (Close None newClientCode)"
  define c0 where "c0 = fst (run_ops [OpRegister 0, OpClose] newClientCode)"
  define c2 where "c2 = snd (projr (Call_Go None ''Foo.Sum'' ''1'' [] cc))"
  have a: "pending newClientCode 7 = None" by (simp add: newClientCode_def)
  have r: "run_ops [OpRegister 0, OpClose] newClientCode = (c0, [1])"
    unfolding c0_def by (simp add: registerCall_def Close_def newClientCode_def prod_eq_iff)
  have l: "length [1 :: uint64] < 2 ^ 64" by simp
  have cl: "closing cc" and p: "pending cc 0 = None"
    unfolding cc_def by (simp_all add: Close_def newClientCode_def)
  have g: "Call_Go None ''Foo.Sum'' ''1'' [] cc = Inr (0, c2)"
    unfolding c2_def cc_def
    by (simp add: Call_Go_def Go_def Go_alloc_def makeChan_def Let_def Close_def newClientCode_def)
  from removeCall_absent_frame[where c = newClientCode and s = 7 and ops = "[OpRegister 0, OpClose]"
       and ?c0.0 = c0 and ids = "[1]" and ?c1.0 = cc and werr = None
       and serviceMethod = "''Foo.Sum''" and args = "''1''" and reply = "[]" and call = 0
       and ?c2.0 = c2 and cause = "''context canceled''"] a r l cl p g
  have "removeCall 7 newClientCode = (None, newClientCode)" and "pending c0 0 = None"
    and "Call_cancelled ''context canceled'' 0 c2
          = (Some (''rpc client: call failed: '' @ ''context canceled''), c2)" by blast+
  with a r cl g show ?thesis unfolding c0_def c2_def cc_def by simp
qed



section \<open>Properties of the service registry and the server\<close>

subsection \<open>Registration of methods\<close>

text \<open>
  What \<^verbatim>\<open>RegisterMethods\<close> does test: a method of a method set (whose names differ) is
  in the map exactly when it has three inputs and one output, the output is \<^verbatim>\<open>error\<close>,
  and the types of its two parameters are exported or built-in.
\<close>

lemma registerLoop_lookup:
  assumes "distinct (map MName ms)"
  shows "registerLoop exported ms m name =
     (case find (\<lambda>mth. MName mth = name) ms of
        None \<Rightarrow> m name
      | Some mth \<Rightarrow>
          if length (In mth) = 3 \<and> length (Out mth) = 1 \<and> Out mth ! 0 = errorType
             \<and> isExportedOrBuiltinType exported (In mth ! 1)
             \<and> isExportedOrBuiltinType exported (In mth ! 2)
          then Some \<lparr>MMethod = mth, ArgType = In mth ! 1, ReplyType = In mth ! 2, NumCalls = 0\<rparr>
          else m name)"
  using assms
proof (induction ms arbitrary: m)
  case Nil
  show ?case by simp
next
  case (Cons mth ms)
  from Cons.prems have d: "distinct (map MName ms)" and n: "MName mth \<notin> MName ` set ms" by auto
  have later: "find (\<lambda>x. MName x = name) ms = None" if "MName mth = name"
  proof -
    have "\<not> MName x = name" if "x \<in> set ms" for x
      using that n \<open>MName mth = name\<close> by (metis imageI)
    then show ?thesis by (simp add: find_None_iff)
  qed
  show ?case
  proof (cases "MName mth = name")
    case True
    then show ?thesis
      using Cons.IH[OF d] later[OF True]
      by (simp add: Let_def)
  next
    case False
    then show ?thesis
      using Cons.IH[OF d]
      by (auto simp: Let_def split: option.splits)
  qed
qed

lemma NewService_bar: "NewService ascii_exported barRcvr = Inr barService"
  by (simp add: NewService_def RegisterMethods_def barRcvr_def barService_def ptrTo_def barType_def
      ascii_exported_def echoMethod_def timeoutMethod_def intType_def errorType_def
      isExportedOrBuiltinType_def Let_def)

text \<open>
  C1 says that a method whose reply type is not pointer-kind is skipped.
  \<^verbatim>\<open>RegisterMethods\<close> makes no such test: registering the sample receiver stores
  \<^verbatim>\<open>Echo\<close>, whose reply type is \<^verbatim>\<open>int\<close>, in the method map, and \<^verbatim>\<open>NewReplyv\<close> panics
  on the stored method type.
\<close>

theorem RegisterMethods_registers_value_reply:
  "NewService ascii_exported barRcvr = Inr barService
   \<and> Methods barService ''Echo''
       = Some \<lparr>MMethod = echoMethod, ArgType = intType, ReplyType = intType, NumCalls = 0\<rparr>
   \<and> tKind intType \<noteq> KPtr
   \<and> NewReplyv \<lparr>MMethod = echoMethod, ArgType = intType, ReplyType = intType, NumCalls = 0\<rparr>
       = Inl ''reflect: Elem of invalid type''"
  using NewService_bar by (simp add: barService_def intType_def NewReplyv_def)

subsection \<open>Registration of services\<close>

text \<open>
  C8: for a receiver that \<^verbatim>\<open>NewService\<close> accepts, \<^verbatim>\<open>Register\<close> returns
  "rpc: service already defined: <name>" when the name is present and leaves the server
  as it was; on a fresh name it returns nil and stores the service under the name.
\<close>

theorem Register_duplicate:
  assumes "NewService exported rcvr = Inr sv"
  shows "(serviceMap s (Name sv) \<noteq> None \<longrightarrow>
            Register exported rcvr s
              = (Inr (Some (''rpc: service already defined: '' @ Name sv)), s))
       \<and> (serviceMap s (Name sv) = None \<longrightarrow>
            Register exported rcvr s
              = (Inr None, s\<lparr>serviceMap := (serviceMap s)(Name sv \<mapsto> sv)\<rparr>))"
  using assms by (auto simp: Register_def)


theorem Register_duplicate_witness:
  "NewService ascii_exported barRcvr = Inr barService
   \<and> serviceMap NewServer (Name barService) = None
   \<and> Register ascii_exported barRcvr NewServer = (Inr None, barServer)
   \<and> serviceMap barServer (Name barService) \<noteq> None
   \<and> Register ascii_exported barRcvr barServer
       = (Inr (Some ''rpc: service already defined: Bar''), barServer)"
proof -
  have n: "Name barService = ''Bar''" by (simp add: barService_def)
  have e: "serviceMap NewServer (Name barService) = None" by (simp add: NewServer_def)
  have d: "serviceMap barServer (Name barService) \<noteq> None" by (simp add: barServer_def n)
  have u: "NewServer\<lparr>serviceMap := (serviceMap NewServer)(Name barService \<mapsto> barService)\<rparr> = barServer"
    by (simp add: NewServer_def barServer_def n)
  from Register_duplicate[OF NewService_bar, of NewServer] e u
  have 1: "Register ascii_exported barRcvr NewServer = (Inr None, barServer)" by simp
  from Register_duplicate[OF NewService_bar, of barServer] d
  have 2: "Register ascii_exported barRcvr barServer
       = (Inr (Some (''rpc: service already defined: '' @ Name barService)), barServer)" by blast
  from NewService_bar e 1 d 2 show ?thesis by (simp add: n)
qed

subsection \<open>Lookup\<close>

lemma last_dot_split:
  "CHR ''.'' \<in> set serviceMethod \<Longrightarrow>
   \<exists>serviceName methodName. serviceMethod = serviceName @ ''.'' @ methodName
      \<and> CHR ''.'' \<notin> set methodName"
  using split_list_last[of "CHR ''.''" serviceMethod] by auto

lemma LastIndex_absent:
  assumes "ch \<notin> set s"
  shows "LastIndex s ch = - 1"
proof -
  have "filter (\<lambda>i. s ! i = ch) (rev [0 ..< length s]) = []"
    using assms by (auto simp: filter_empty_conv)
  then show ?thesis by (simp add: LastIndex_def)
qed

lemma LastIndex_split:
  assumes "ch \<notin> set b"
  shows "LastIndex (a @ ch # b) ch = int (length a)"
proof -
  let ?s = "a @ ch # b"
  let ?P = "\<lambda>i. ?s ! i = ch"
  have len: "length ?s = length a + Suc (length b)" by simp
  have split: "[0 ..< length ?s] = [0 ..< length a] @ length a # [Suc (length a) ..< length ?s]"
  proof -
    have "[0 ..< length a + Suc (length b)] = [0 ..< length a] @ [length a ..< length a + Suc (length b)]"
      by (rule upt_add_eq_append) simp
    moreover have "[length a ..< length a + Suc (length b)]
        = length a # [Suc (length a) ..< length a + Suc (length b)]"
      by (rule upt_conv_Cons) simp
    ultimately show ?thesis unfolding len by (simp only:)
  qed
  have tail: "filter ?P [Suc (length a) ..< length ?s] = []"
  proof -
    have "\<not> ?P i" if "i \<in> set [Suc (length a) ..< length ?s]" for i
    proof -
      from that have i: "Suc (length a) \<le> i" "i < length a + Suc (length b)" by auto
      then have "?s ! i = b ! (i - Suc (length a))"
        by (simp add: nth_append nth_Cons')
      moreover from i have "b ! (i - Suc (length a)) \<in> set b" by (intro nth_mem) arith
      ultimately show ?thesis using assms by auto
    qed
    then show ?thesis by (simp only: filter_empty_conv) blast
  qed
  have "filter ?P [0 ..< length ?s] = filter ?P [0 ..< length a] @ [length a]"
    unfolding split using tail by simp
  then have "filter ?P (rev [0 ..< length ?s]) = length a # rev (filter ?P [0 ..< length a])"
    by (simp only: rev_filter[symmetric] rev_append rev.simps append_Nil append_Cons) 
  then show ?thesis unfolding LastIndex_def by (simp only: list.case)
qed

text \<open>
  C9: an identifier without a dot is ill-formed. An identifier with a dot is split at its
  last dot, that is as \<open>serviceName @ ''.'' @ methodName\<close> where \<open>methodName\<close> has no dot,
  and every identifier with a dot can be so written: an
  unknown service name fails with "can't find service", a method name missing from the
  service's map fails with "can't find method", and otherwise the service and the method
  type are returned with a nil error.
\<close>

theorem findService_cases:
  "(CHR ''.'' \<notin> set serviceMethod \<longrightarrow>
      findService s serviceMethod
        = (None, None,
           Some (''rpc server: service/method request ill-formed: '' @ serviceMethod)))
   \<and> (CHR ''.'' \<notin> set methodName \<longrightarrow>
        (serviceMap s serviceName = None \<longrightarrow>
           findService s (serviceName @ ''.'' @ methodName)
             = (None, None,
                Some (''rpc server: can'' @ [CHR 0x27] @ ''t find service '' @ serviceName)))
        \<and> (\<forall>sv. serviceMap s serviceName = Some sv \<longrightarrow>
             (Methods sv methodName = None \<longrightarrow>
                findService s (serviceName @ ''.'' @ methodName)
                  = (Some sv, None,
                     Some (''rpc server: can'' @ [CHR 0x27] @ ''t find method '' @ methodName)))
             \<and> (\<forall>mt. Methods sv methodName = Some mt \<longrightarrow>
                  findService s (serviceName @ ''.'' @ methodName)
                    = (Some sv, Some mt, None))))
   \<and> (CHR ''.'' \<in> set serviceMethod \<longrightarrow>
        (\<exists>sn mn. serviceMethod = sn @ ''.'' @ mn \<and> CHR ''.'' \<notin> set mn))"
proof (intro conjI impI allI)
  assume "CHR ''.'' \<in> set serviceMethod"
  then show "\<exists>sn mn. serviceMethod = sn @ ''.'' @ mn \<and> CHR ''.'' \<notin> set mn"
    by (rule last_dot_split)
next
  assume "CHR ''.'' \<notin> set serviceMethod"
  then show "findService s serviceMethod
        = (None, None,
           Some (''rpc server: service/method request ill-formed: '' @ serviceMethod))"
    by (simp add: findService_def LastIndex_absent)
next
  assume d: "CHR ''.'' \<notin> set methodName" and m: "serviceMap s serviceName = None"
  from LastIndex_split[OF d, of serviceName] m
  show "findService s (serviceName @ ''.'' @ methodName)
             = (None, None,
                Some (''rpc server: can'' @ [CHR 0x27] @ ''t find service '' @ serviceName))"
    by (simp add: findService_def Let_def)
next
  fix sv
  assume d: "CHR ''.'' \<notin> set methodName" and m: "serviceMap s serviceName = Some sv"
    and n: "Methods sv methodName = None"
  from LastIndex_split[OF d, of serviceName] m n
  show "findService s (serviceName @ ''.'' @ methodName)
                  = (Some sv, None,
                     Some (''rpc server: can'' @ [CHR 0x27] @ ''t find method '' @ methodName))"
    by (simp add: findService_def Let_def nat_add_distrib)
next
  fix sv mt
  assume d: "CHR ''.'' \<notin> set methodName" and m: "serviceMap s serviceName = Some sv"
    and n: "Methods sv methodName = Some mt"
  from LastIndex_split[OF d, of serviceName] m n
  show "findService s (serviceName @ ''.'' @ methodName) = (Some sv, Some mt, None)"
    by (simp add: findService_def Let_def nat_add_distrib)
qed

theorem findService_cases_witness:
  "findService barServer ''BarTimeout''
     = (None, None, Some ''rpc server: service/method request ill-formed: BarTimeout'')
   \<and> findService barServer ''Baz.Timeout''
     = (None, None, Some (''rpc server: can'' @ [CHR 0x27] @ ''t find service Baz''))
   \<and> findService barServer ''Bar.Sleep''
     = (Some barService, None, Some (''rpc server: can'' @ [CHR 0x27] @ ''t find method Sleep''))
   \<and> findService barServer ''Bar.Timeout''
     = (Some barService,
        Some \<lparr>MMethod = timeoutMethod, ArgType = intType, ReplyType = ptrTo intType,
              NumCalls = 0\<rparr>, None)"
proof -
  have a: "CHR ''.'' \<notin> set ''BarTimeout''" by simp
  have b: "CHR ''.'' \<notin> set ''Timeout''" "CHR ''.'' \<notin> set ''Sleep''" by simp_all
  have m: "serviceMap barServer ''Baz'' = None" "serviceMap barServer ''Bar'' = Some barService"
    by (simp_all add: barServer_def)
  have k: "Methods barService ''Sleep'' = None"
    "Methods barService ''Timeout''
       = Some \<lparr>MMethod = timeoutMethod, ArgType = intType, ReplyType = ptrTo intType, NumCalls = 0\<rparr>"
    by (simp_all add: barService_def)
  from findService_cases[where serviceMethod = "''BarTimeout''" and methodName = "''Timeout''" and s = barServer and serviceName = "''Baz''"] a b m
  have 1: "findService barServer ''BarTimeout''
     = (None, None, Some (''rpc server: service/method request ill-formed: '' @ ''BarTimeout''))"
    and 2: "findService barServer (''Baz'' @ ''.'' @ ''Timeout'')
     = (None, None, Some (''rpc server: can'' @ [CHR 0x27] @ ''t find service '' @ ''Baz''))"
    by blast+
  from findService_cases[where serviceMethod = "''BarTimeout''" and methodName = "''Sleep''" and s = barServer and serviceName = "''Bar''"] b m k
  have 3: "findService barServer (''Bar'' @ ''.'' @ ''Sleep'')
     = (Some barService, None, Some (''rpc server: can'' @ [CHR 0x27] @ ''t find method '' @ ''Sleep''))"
    by blast
  from findService_cases[where serviceMethod = "''BarTimeout''" and methodName = "''Timeout''" and s = barServer and serviceName = "''Bar''"] b m k
  have 4: "findService barServer (''Bar'' @ ''.'' @ ''Timeout'')
     = (Some barService,
        Some \<lparr>MMethod = timeoutMethod, ArgType = intType, ReplyType = ptrTo intType,
              NumCalls = 0\<rparr>, None)"
    by blast
  from 1 2 3 4 show ?thesis by simp
qed



subsection \<open>A request that does not resolve\<close>

lemma readRequest_unresolved:
  assumes "\<not> closed cc" "unread cc = HeaderFrame h # rest"
    and "findService s (ServiceMethod h) = (sv, mt, Some err)"
  shows "readRequest decodes s cc
     = Inr (BadRequest \<lparr>head = h, argv = ZeroValue, replyv = ZeroValue, mtype = mt, svc = sv\<rparr> err,
            cc\<lparr>unread := rest\<rparr>)"
  using assms by (simp add: readRequest_def readRequestHeader_def ReadHeader_def Let_def)

lemma findService_baz:
  "findService barServer (ServiceMethod bazHeader)
     = (None, None, Some (''rpc server: can'' @ [CHR 0x27] @ ''t find service Baz''))"
proof -
  have "CHR ''.'' \<notin> set ''Timeout''" by simp
  from LastIndex_split[OF this, of "''Baz''"]
  show ?thesis by (simp add: findService_def bazHeader_def barServer_def Let_def)
qed

text \<open>
  C2 says that the body of a request that does not resolve is still consumed, so that the
  stream stays aligned and the connection remains usable. \<^verbatim>\<open>readRequest\<close> returns as
  soon as \<^verbatim>\<open>findService\<close> fails and reads no body: on the stream of two requests the
  body of the first is still unread after it, \<^verbatim>\<open>serveCode\<close> answers the first request
  with the error and the placeholder body, reads that body as the next header, fails,
  leaves the loop and closes the codec. The second request is never read.
\<close>

theorem readRequest_leaves_body_unread:
  "readRequest decodesAll barServer twoRequests
     = Inr (BadRequest \<lparr>head = bazHeader, argv = ZeroValue, replyv = ZeroValue, mtype = None,
                         svc = None\<rparr>
              (''rpc server: can'' @ [CHR 0x27] @ ''t find service Baz''),
            \<lparr>unread = [BodyFrame ''1'', HeaderFrame barHeader, BodyFrame ''2''], written = [],
             closed = False\<rparr>)
   \<and> serveCode decodesAll barServer twoRequests
     = Inr (\<lparr>unread = [HeaderFrame barHeader, BodyFrame ''2''],
             written = [(bazHeader\<lparr>Error := ''rpc server: can'' @ [CHR 0x27] @ ''t find service Baz''\<rparr>,
                         invalidRequest)],
             closed = True\<rparr>, [])"
proof -
  have r1: "readRequest decodesAll barServer twoRequests
     = Inr (BadRequest \<lparr>head = bazHeader, argv = ZeroValue, replyv = ZeroValue, mtype = None,
                         svc = None\<rparr>
              (''rpc server: can'' @ [CHR 0x27] @ ''t find service Baz''),
            \<lparr>unread = [BodyFrame ''1'', HeaderFrame barHeader, BodyFrame ''2''], written = [],
             closed = False\<rparr>)"
    using readRequest_unresolved[OF _ _ findService_baz, of twoRequests
        "[BodyFrame ''1'', HeaderFrame barHeader, BodyFrame ''2'']" decodesAll]
    by (simp add: twoRequests_def)
  let ?cc2 = "\<lparr>unread = [BodyFrame ''1'', HeaderFrame barHeader, BodyFrame ''2''],
      written = [(bazHeader\<lparr>Error := ''rpc server: can'' @ [CHR 0x27] @ ''t find service Baz''\<rparr>,
                  invalidRequest)], closed = False\<rparr>"
  have r2: "readRequest decodesAll barServer ?cc2
     = Inr (NoRequest ''gob: type mismatch'', ?cc2\<lparr>unread := [HeaderFrame barHeader, BodyFrame ''2'']\<rparr>)"
    by (simp add: readRequest_def readRequestHeader_def ReadHeader_def)
  have l2: "serveLoop decodesAll barServer ?cc2 []
     = Inr (?cc2\<lparr>unread := [HeaderFrame barHeader, BodyFrame ''2'']\<rparr>, [])"
    by (subst serveLoop.simps) (simp only: r2 sum.case prod.case read_result.case)
  have l1: "serveLoop decodesAll barServer twoRequests [] = serveLoop decodesAll barServer ?cc2 []"
    by (subst serveLoop.simps) (simp add: r1 sendResponse_def Write_def)
  from r1 l1 l2 show ?thesis by (simp add: serveCode_def)
qed



section \<open>Properties of the timeouts\<close>

text \<open>
  C5: after options that parse and a dial that succeeds, with a \<^verbatim>\<open>ConnectTimeout\<close> of
  zero \<^verbatim>\<open>dialTimeout\<close> returns what the factory returns, whenever that is, and does not
  return while the factory does not; it closes the connection exactly when the factory's
  error is not nil. With a positive \<^verbatim>\<open>ConnectTimeout\<close> and a factory that takes longer
  (or never returns) it returns a nil client and the error
  "rpc client: connect timeout: expect within <d>", and the connection is closed.
\<close>

theorem dialTimeout_connect_timeout:
  assumes "parseOptions opts = Inr opt"
  shows "(ConnectTimeout opt = 0 \<longrightarrow>
            (f opt = Never \<longrightarrow> dialTimeout durationString f None opts timerFirst = None)
          \<and> (\<forall>t cl e. f opt = At t (cl, e) \<longrightarrow>
                dialTimeout durationString f None opts timerFirst
                  = Some \<lparr>resClient = cl, resErr = e, connClosed = (e \<noteq> None)\<rparr>))
       \<and> (0 < ConnectTimeout opt
            \<and> (f opt = Never \<or> (\<exists>t r. f opt = At t r \<and> ConnectTimeout opt < t)) \<longrightarrow>
            dialTimeout durationString f None opts timerFirst
              = Some \<lparr>resClient = None,
                      resErr = Some (''rpc client: connect timeout: expect within ''
                                     @ durationString (ConnectTimeout opt)),
                      connClosed = True\<rparr>)"
  using assms by (auto simp: dialTimeout_def selectAfter_def)

theorem dialTimeout_connect_timeout_witness:
  "parseOptions [Some (DefaultOption\<lparr>ConnectTimeout := 0\<rparr>)]
     = Inr (DefaultOption\<lparr>ConnectTimeout := 0\<rparr>)
   \<and> dialTimeout secondsString sleepyFactory None [Some (DefaultOption\<lparr>ConnectTimeout := 0\<rparr>)] True
     = Some \<lparr>resClient = None, resErr = None, connClosed = False\<rparr>
   \<and> parseOptions [Some (DefaultOption\<lparr>ConnectTimeout := 1000000000\<rparr>)]
     = Inr (DefaultOption\<lparr>ConnectTimeout := 1000000000\<rparr>)
   \<and> dialTimeout secondsString sleepyFactory None
        [Some (DefaultOption\<lparr>ConnectTimeout := 1000000000\<rparr>)] False
     = Some \<lparr>resClient = None,
             resErr = Some ''rpc client: connect timeout: expect within 1s'',
             connClosed = True\<rparr>"
proof -
  define o0 where "o0 = DefaultOption\<lparr>ConnectTimeout := 0\<rparr>"
  define o1 where "o1 = DefaultOption\<lparr>ConnectTimeout := 1000000000\<rparr>"
  have p0: "parseOptions [Some o0] = Inr o0" and p1: "parseOptions [Some o1] = Inr o1"
    by (simp_all add: parseOptions_def DefaultOption_def o0_def o1_def Let_def)
  have z: "ConnectTimeout o0 = 0" and f0: "sleepyFactory o0 = At (2 * 1000000000) (None, None)"
    by (simp_all add: o0_def sleepyFactory_def)
  have s: "0 < ConnectTimeout o1
      \<and> (sleepyFactory o1 = Never \<or> (\<exists>t r. sleepyFactory o1 = At t r \<and> ConnectTimeout o1 < t))"
    by (simp add: o1_def sleepyFactory_def)
  have d: "secondsString (ConnectTimeout o1) = ''1s''"
    by (simp add: o1_def secondsString_def)
  from dialTimeout_connect_timeout[OF p0, of sleepyFactory secondsString True] z f0
  have 1: "dialTimeout secondsString sleepyFactory None [Some o0] True
     = Some \<lparr>resClient = None, resErr = None, connClosed = False\<rparr>" by simp
  from dialTimeout_connect_timeout[OF p1, of sleepyFactory secondsString False] s
  have 2: "dialTimeout secondsString sleepyFactory None [Some o1] False
     = Some \<lparr>resClient = None,
             resErr = Some (''rpc client: connect timeout: expect within ''
                            @ secondsString (ConnectTimeout o1)),
             connClosed = True\<rparr>" by blast
  from p0 p1 1 2 d show ?thesis unfolding o0_def o1_def by simp
qed

lemma sendResponse_written:
  "\<not> closed cc \<Longrightarrow> sendResponse h body cc = cc\<lparr>written := written cc @ [(h, body)]\<rparr>"
  by (simp add: sendResponse_def Write_def)

text \<open>
  C4: with a zero timeout the parent of \<^verbatim>\<open>handleRequest\<close> returns after the worker's
  response, whenever the call returns, and not before. With a nonzero timeout, where the
  timer wins the \<^verbatim>\<open>select\<close> the parent writes the response whose header error is
  "rpc server: request handle timeout: expect within <d>", with the placeholder body, and
  returns without waiting for the worker; where \<^verbatim>\<open>called\<close> wins it returns after the
  worker's response. The timer wins against a call that takes longer than the timeout or
  never returns, \<^verbatim>\<open>called\<close> wins when the call takes less.
\<close>

theorem handleRequest_timeout:
  "(timeout = 0 \<longrightarrow>
      (call = Never \<longrightarrow> handleRequest durationString req timeout call timerFirst cc = None)
      \<and> (\<forall>t r. call = At t r \<longrightarrow>
            handleRequest durationString req timeout call timerFirst cc
              = Some (workerResponse req r cc, AwaitedSent)))
   \<and> (timeout \<noteq> 0 \<and> selectAfter timeout call timerFirst = None \<longrightarrow>
        handleRequest durationString req timeout call timerFirst cc
          = Some (sendResponse
                    ((head req)\<lparr>Error := ''rpc server: request handle timeout: expect within ''
                                         @ durationString timeout\<rparr>)
                    invalidRequest cc,
                  TimedOut))
   \<and> (\<forall>r. timeout \<noteq> 0 \<and> selectAfter timeout call timerFirst = Some r \<longrightarrow>
        handleRequest durationString req timeout call timerFirst cc
          = Some (workerResponse req r cc, AwaitedSent))
   \<and> (call = Never \<or> (\<exists>t r. call = At t r \<and> timeout < t) \<longrightarrow>
        selectAfter timeout call timerFirst = None)
   \<and> (\<forall>t r. call = At t r \<and> t < timeout \<longrightarrow> selectAfter timeout call timerFirst = Some r)"
  by (auto simp: handleRequest_def selectAfter_def)

theorem handleRequest_timeout_witness:
  "handleRequest secondsString barRequest 0 sleepyCall True emptyCodec
     = Some (emptyCodec\<lparr>written := [(barHeader, Value (ptrTo intType) ZeroC)]\<rparr>, AwaitedSent)
   \<and> selectAfter 1000000000 sleepyCall False = None
   \<and> handleRequest secondsString barRequest 1000000000 sleepyCall False emptyCodec
     = Some (emptyCodec\<lparr>written :=
               [(barHeader\<lparr>Error := ''rpc server: request handle timeout: expect within 1s''\<rparr>,
                 invalidRequest)]\<rparr>, TimedOut)
   \<and> selectAfter 3000000000 sleepyCall True = Some (None, Value (ptrTo intType) ZeroC)
   \<and> handleRequest secondsString barRequest 3000000000 sleepyCall True emptyCodec
     = Some (emptyCodec\<lparr>written := [(barHeader, Value (ptrTo intType) ZeroC)]\<rparr>, AwaitedSent)"
proof -
  have c: "sleepyCall = At (2 * 1000000000) (None, Value (ptrTo intType) ZeroC)"
    by (simp add: sleepyCall_def)
  have w: "workerResponse barRequest (None, Value (ptrTo intType) ZeroC) emptyCodec
      = emptyCodec\<lparr>written := [(barHeader, Value (ptrTo intType) ZeroC)]\<rparr>"
    by (simp add: workerResponse_def sendResponse_written emptyCodec_def barRequest_def)
  have t: "sendResponse
             ((head barRequest)\<lparr>Error := ''rpc server: request handle timeout: expect within ''
                                  @ secondsString 1000000000\<rparr>) invalidRequest emptyCodec
      = emptyCodec\<lparr>written :=
               [(barHeader\<lparr>Error := ''rpc server: request handle timeout: expect within 1s''\<rparr>,
                 invalidRequest)]\<rparr>"
    by (simp add: sendResponse_written emptyCodec_def barRequest_def secondsString_def)
  have l: "sleepyCall = Never \<or> (\<exists>t r. sleepyCall = At t r \<and> 1000000000 < t)"
    by (simp add: sleepyCall_def)
  have e: "(2 * 1000000000 :: int) < 3000000000" by simp
  note h0 = handleRequest_timeout[of 0 sleepyCall secondsString barRequest True emptyCodec]
  note h1 = handleRequest_timeout[of 1000000000 sleepyCall secondsString barRequest False emptyCodec]
  note h3 = handleRequest_timeout[of 3000000000 sleepyCall secondsString barRequest True emptyCodec]
  from h0 c have 1: "handleRequest secondsString barRequest 0 sleepyCall True emptyCodec
     = Some (workerResponse barRequest (None, Value (ptrTo intType) ZeroC) emptyCodec, AwaitedSent)"
    by blast
  from h1 l have 2: "selectAfter 1000000000 sleepyCall False = None" by blast
  with h1 have 3: "handleRequest secondsString barRequest 1000000000 sleepyCall False emptyCodec
     = Some (sendResponse
             ((head barRequest)\<lparr>Error := ''rpc server: request handle timeout: expect within ''
                                  @ secondsString 1000000000\<rparr>) invalidRequest emptyCodec, TimedOut)"
    by simp
  from h3 c e have 4: "selectAfter 3000000000 sleepyCall True = Some (None, Value (ptrTo intType) ZeroC)"
    by blast
  with h3 have 5: "handleRequest secondsString barRequest 3000000000 sleepyCall True emptyCodec
     = Some (workerResponse barRequest (None, Value (ptrTo intType) ZeroC) emptyCodec, AwaitedSent)"
    by simp
  from 1 2 3 4 5 show ?thesis by (simp only: w t) 
qed



section \<open>Properties of the goroutines of a client\<close>

subsection \<open>What the primitives change\<close>



lemma life_of_Nil: "life_of r [] = []"
  by (simp add: life_of_def)






subsection \<open>The invariant is kept by every step\<close>































subsection \<open>The outcomes of a call\<close>









end
